theory Spec2Isabelle
  imports Main "HOL-Library.Word" "HOL-Library.Sublist"
begin

section \<open>Python values\<close>

text \<open>
  The values that \<^verbatim>\<open>ast.literal_eval\<close> can produce and that the fields of a
  dataset row can hold.  A float is kept as its 64 IEEE bits (only the test against zero is
  ever needed), \<^verbatim>\<open>str\<close> and \<^verbatim>\<open>bytes\<close> are lists of 8-bit characters (a
  \<^verbatim>\<open>str\<close> character is read as the code point of the same number, so the model
  covers the strings of code points below 256), and a dict is the list of its items.
\<close>

datatype pyval =
    PNone
  | PBool bool
  | PInt int
  | PFloat "64 word"
  | PComplex "64 word" "64 word"
  | PStr string
  | PBytes string
  | PList "pyval list"
  | PTuple "pyval list"
  | PSet "pyval list"
  | PDict "(pyval \<times> pyval) list"
  | PEllipsis

text \<open>The exceptions that the modelled code can raise.\<close>

datatype error = AttributeError | TypeError | CypherTypeError

text \<open>A float is zero when its bits are those of \<open>+0.0\<close> or \<open>-0.0\<close>.\<close>

definition float_is_zero :: "64 word \<Rightarrow> bool" where
  "float_is_zero w = (w = 0 \<or> w = 0x8000000000000000)"

text \<open>Python's truth value of an object, as \<^verbatim>\<open>if x\<close> and \<^verbatim>\<open>x and y\<close> test it.\<close>

fun truthy :: "pyval \<Rightarrow> bool" where
  "truthy PNone = False"
| "truthy (PBool b) = b"
| "truthy (PInt i) = (i \<noteq> 0)"
| "truthy (PFloat w) = (\<not> float_is_zero w)"
| "truthy (PComplex re im) = (\<not> (float_is_zero re \<and> float_is_zero im))"
| "truthy (PStr s) = (s \<noteq> [])"
| "truthy (PBytes b) = (b \<noteq> [])"
| "truthy (PList xs) = (xs \<noteq> [])"
| "truthy (PTuple xs) = (xs \<noteq> [])"
| "truthy (PSet xs) = (xs \<noteq> [])"
| "truthy (PDict kvs) = (kvs \<noteq> [])"
| "truthy PEllipsis = True"

text \<open>
  \<^verbatim>\<open>d.get(k, default)\<close> for a string key \<open>k\<close>: a \<^verbatim>\<open>str\<close> key is equal to
  no key of another type, so the lookup is by the value \<open>PStr k\<close>.
\<close>

definition py_get :: "(pyval \<times> pyval) list \<Rightarrow> string \<Rightarrow> pyval \<Rightarrow> pyval" where
  "py_get d k dflt = (case map_of d (PStr k) of None \<Rightarrow> dflt | Some v \<Rightarrow> v)"

text \<open>\<^verbatim>\<open>k in d\<close> for a string key.\<close>

definition py_in :: "string \<Rightarrow> (pyval \<times> pyval) list \<Rightarrow> bool" where
  "py_in k d = (map_of d (PStr k) \<noteq> None)"

subsection \<open>Strings\<close>

text \<open>
  The characters that \<^verbatim>\<open>str.strip()\<close> removes, among the code points below 256:
  U+0009 to U+000D, U+001C to U+0020, U+0085 and U+00A0.
\<close>

definition is_space :: "char \<Rightarrow> bool" where
  "is_space c = (let n = (of_char c :: nat) in
     (9 \<le> n \<and> n \<le> 13) \<or> (28 \<le> n \<and> n \<le> 32) \<or> n = 133 \<or> n = 160)"

definition py_strip :: "string \<Rightarrow> string" where
  "py_strip s = rev (dropWhile is_space (rev (dropWhile is_space s)))"

text \<open>
  \<^verbatim>\<open>str.upper()\<close> on the letters a to z.  The code applies it to the four node
  labels only, which are ASCII.
\<close>

definition upper_char :: "char \<Rightarrow> char" where
  "upper_char c = (let n = (of_char c :: nat) in
     if 97 \<le> n \<and> n \<le> 122 then char_of (n - 32) else c)"

definition py_upper :: "string \<Rightarrow> string" where
  "py_upper s = map upper_char s"



section \<open>The graph store\<close>

text \<open>
  A labelled property graph.  The identifier of a node is its position in \<open>nodes\<close>
  (the code never deletes a node); a relationship is (start, type, end).  The store keeps
  every value as it is given; what a real store does with a value it cannot hold, or with
  a lost connection, is outside this model.
\<close>

record node =
  label :: string
  props :: "(string \<times> pyval) list"

record graph =
  nodes :: "node list"
  rels :: "(nat \<times> string \<times> nat) list"

definition empty_graph :: graph where
  "empty_graph = \<lparr>nodes = [], rels = []\<rparr>"


text \<open>\<^verbatim>\<open>MATCH (x:L) WHERE id(x) = $i\<close>\<close>

definition match_id :: "graph \<Rightarrow> string \<Rightarrow> nat \<Rightarrow> nat list" where
  "match_id g l i = (if i < length (nodes g) \<and> label (nodes g ! i) = l then [i] else [])"

text \<open>\<^verbatim>\<open>MATCH (c:City {name: $v})\<close>\<close>

definition is_city :: "pyval \<Rightarrow> node \<Rightarrow> bool" where
  "is_city v n = (label n = ''City'' \<and> map_of (props n) ''name'' = Some v)"

definition match_city :: "graph \<Rightarrow> pyval \<Rightarrow> nat list" where
  "match_city g v = filter (\<lambda>i. is_city v (nodes g ! i)) [0..<length (nodes g)]"

text \<open>\<^verbatim>\<open>CREATE (x:L {...})\<close>: a fresh node, whatever the graph holds already.\<close>

definition create_node :: "graph \<Rightarrow> string \<Rightarrow> (string \<times> pyval) list \<Rightarrow> graph" where
  "create_node g l ps = g\<lparr>nodes := nodes g @ [\<lparr>label = l, props = ps\<rparr>]\<rparr>"

text \<open>\<^verbatim>\<open>MERGE (a)-[:T]->(b)\<close> on bound nodes: the relationship is added unless it is there.\<close>

definition merge_rel :: "graph \<Rightarrow> nat \<Rightarrow> string \<Rightarrow> nat \<Rightarrow> graph" where
  "merge_rel g a t b = (if (a, t, b) \<in> set (rels g) then g else g\<lparr>rels := rels g @ [(a, t, b)]\<rparr>)"

text \<open>\<^verbatim>\<open>MERGE (c:City {name: $v})\<close>: the node is created unless one matches.\<close>

definition cy_merge_city :: "graph \<Rightarrow> pyval \<Rightarrow> graph" where
  "cy_merge_city g v = (if match_city g v = [] then create_node g ''City'' [(''name'', v)] else g)"

text \<open>
  A statement that ends in \<open>MERGE\<close> clauses on relationships runs them for every row of
  its \<open>MATCH\<close> clauses: \<open>merge_rels\<close> merges a list of relationships in order.
\<close>

definition merge_rels :: "graph \<Rightarrow> (nat \<times> string \<times> nat) list \<Rightarrow> graph" where
  "merge_rels g rs = foldl (\<lambda>h (a, t, b). merge_rel h a t b) g rs"

text \<open>
  \<^verbatim>\<open>MATCH (s:SL) WHERE id(s) = $i  CREATE (n:L {...})  MERGE (s)-[:T]->(n)  RETURN id(n)\<close>:
  one node and one relationship for the matched start node, nothing when no node matches.
  The result is the new graph and the rows returned.
\<close>

definition create_linked ::
  "graph \<Rightarrow> string \<Rightarrow> nat \<Rightarrow> string \<Rightarrow> string \<Rightarrow> (string \<times> pyval) list \<Rightarrow> graph \<times> nat list" where
  "create_linked g sl i t l ps =
     (case match_id g sl i of
        [] \<Rightarrow> (g, [])
      | s # _ \<Rightarrow> (let n = length (nodes g) in (merge_rel (create_node g l ps) s t n, [n])))"

text \<open>
  \<^verbatim>\<open>session.write_transaction(f, ...)\<close>: the work of \<open>f\<close> is committed when \<open>f\<close>
  returns and rolled back when it raises; the exception goes on to the caller.
\<close>

definition write_transaction :: "(graph \<Rightarrow> error + graph) \<Rightarrow> graph \<Rightarrow> graph \<times> error option" where
  "write_transaction f g = (case f g of Inl e \<Rightarrow> (g, Some e) | Inr g' \<Rightarrow> (g', None))"

text \<open>Sequencing of steps that may raise: the first exception ends the run.\<close>

definition and_then :: "error + 'a \<Rightarrow> ('a \<Rightarrow> error + 'b) \<Rightarrow> error + 'b" where
  "and_then m f = (case m of Inl e \<Rightarrow> Inl e | Inr x \<Rightarrow> f x)"

section \<open>The graph builder\<close>

text \<open>
  \<^verbatim>\<open>ast.literal_eval\<close> is a function of the Python library.  The development is
  parametric in it: a decoder gives the value of a text, or \<open>None\<close> when the call raises.
\<close>

type_synonym decoder = "string \<Rightarrow> pyval option"

text \<open>
  \<^verbatim>\<open>try: x = ast.literal_eval(field)  except Exception: x = []\<close>.
  The call raises \<^verbatim>\<open>ValueError\<close> on an argument that is not a \<^verbatim>\<open>str\<close>.
\<close>

definition literal_eval_or_empty :: "decoder \<Rightarrow> pyval \<Rightarrow> pyval" where
  "literal_eval_or_empty ev field =
     (case field of
        PStr s \<Rightarrow> (case ev s of None \<Rightarrow> PList [] | Some x \<Rightarrow> x)
      | _ \<Rightarrow> PList [])"

text \<open>
  \<^verbatim>\<open>_merge_city(tx, city_name)\<close>, the body of a transaction.
\<close>

definition merge_city :: "pyval \<Rightarrow> graph \<Rightarrow> error + graph" where
  "merge_city city_name g = Inr (cy_merge_city g city_name)"

text \<open>
  The test \<^verbatim>\<open>x and x.strip() != "-"\<close>.  A false \<open>x\<close> ends it before \<open>strip\<close> is
  called; only \<^verbatim>\<open>str\<close> and \<^verbatim>\<open>bytes\<close> have a \<open>strip\<close>, and a \<^verbatim>\<open>bytes\<close>
  object is never equal to the \<^verbatim>\<open>str\<close> \<open>"-"\<close>.
\<close>

definition valid_data :: "pyval \<Rightarrow> error + bool" where
  "valid_data x =
     (if \<not> truthy x then Inr False
      else case x of
             PStr s \<Rightarrow> Inr (py_strip s \<noteq> ''-'')
           | PBytes b \<Rightarrow> Inr True
           | _ \<Rightarrow> Inl AttributeError)"

text \<open>
  \<^verbatim>\<open>_create_related_node(tx, dp_id, value, label, meal_type=None)\<close>.  Both branches
  build the label of the node and the type of the relationship from \<open>label\<close>.
\<close>

definition create_related_node :: "graph \<Rightarrow> nat \<Rightarrow> pyval \<Rightarrow> string \<Rightarrow> string option \<Rightarrow> graph" where
  "create_related_node g dp_id val l meal_type =
     (case meal_type of
        Some m \<Rightarrow>
          if m \<noteq> [] then
            fst (create_linked g ''DayPlan'' dp_id (''HAS_'' @ py_upper l) l
                   [(''value'', val), (''meal_type'', PStr m)])
          else
            fst (create_linked g ''DayPlan'' dp_id (''HAS_'' @ py_upper l) l [(''value'', val)])
      | None \<Rightarrow>
          fst (create_linked g ''DayPlan'' dp_id (''HAS_'' @ py_upper l) l [(''value'', val)]))"

text \<open>
  One of the six statements
  \<^verbatim>\<open>if x and x.strip() != "-": _create_related_node(tx, dp_id, x, label, meal_type)\<close>.
\<close>

definition related_field :: "nat \<Rightarrow> pyval \<Rightarrow> string \<Rightarrow> string option \<Rightarrow> graph \<Rightarrow> error + graph" where
  "related_field dp_id x l meal_type g =
     (case valid_data x of
        Inl e \<Rightarrow> Inl e
      | Inr ok \<Rightarrow> Inr (if ok then create_related_node g dp_id x l meal_type else g))"

text \<open>
  The statement on \<open>current_city\<close>: when it holds data, the city is merged and
  \<^verbatim>\<open>MATCH (dp:DayPlan) WHERE id(dp) = $dp_id  MATCH (c:City {name: $current_city})
  MERGE (dp)-[:IN_CITY]->(c)\<close> links the day to every matching city.
\<close>

definition in_city :: "nat \<Rightarrow> pyval \<Rightarrow> graph \<Rightarrow> error + graph" where
  "in_city dp_id current_city g =
     (case valid_data current_city of
        Inl e \<Rightarrow> Inl e
      | Inr ok \<Rightarrow>
          Inr (if ok then
                 (let g1 = cy_merge_city g current_city
                  in merge_rels g1
                       (map (\<lambda>(dp, c). (dp, ''IN_CITY'', c))
                          (List.product (match_id g1 ''DayPlan'' dp_id)
                             (match_city g1 current_city))))
               else g))"

text \<open>
  \<^verbatim>\<open>_create_day_plan(tx, tp_id, day_plan)\<close>.  \<^verbatim>\<open>result.single()\<close> is \<open>None\<close>
  when the statement returns no row, and indexing it raises \<^verbatim>\<open>TypeError\<close>.
\<close>

definition create_day_plan :: "graph \<Rightarrow> nat \<Rightarrow> (pyval \<times> pyval) list \<Rightarrow> error + graph" where
  "create_day_plan g tp_id day_plan =
     (let day_number = py_get day_plan ''days'' PNone;
          current_city = py_get day_plan ''current_city'' (PStr []);
          transportation = py_get day_plan ''transportation'' (PStr []);
          breakfast = py_get day_plan ''breakfast'' (PStr []);
          attraction = py_get day_plan ''attraction'' (PStr []);
          lunch = py_get day_plan ''lunch'' (PStr []);
          dinner = py_get day_plan ''dinner'' (PStr []);
          accommodation = py_get day_plan ''accommodation'' (PStr []);
          (g1, result) = create_linked g ''TripPlan'' tp_id ''HAS_DAY_PLAN'' ''DayPlan''
                           [(''day'', day_number), (''current_city'', current_city)]
      in case result of
           [] \<Rightarrow> Inl TypeError
         | dp_id # _ \<Rightarrow>
             and_then (in_city dp_id current_city g1)
            (\<lambda>g2. and_then (related_field dp_id transportation ''Transportation'' None g2)
            (\<lambda>g3. and_then (related_field dp_id breakfast ''Meal'' (Some ''Breakfast'') g3)
            (\<lambda>g4. and_then (related_field dp_id lunch ''Meal'' (Some ''Lunch'') g4)
            (\<lambda>g5. and_then (related_field dp_id dinner ''Meal'' (Some ''Dinner'') g5)
            (\<lambda>g6. and_then (related_field dp_id attraction ''Attraction'' None g6)
            (\<lambda>g7. related_field dp_id accommodation ''Accommodation'' None g7)))))))"

text \<open>\<^verbatim>\<open>_create_reference_info(tx, tp_id, ref)\<close>\<close>

definition create_reference_info :: "graph \<Rightarrow> nat \<Rightarrow> (pyval \<times> pyval) list \<Rightarrow> graph" where
  "create_reference_info g tp_id ref =
     (let description = py_get ref ''Description'' (PStr []);
          content = py_get ref ''Content'' (PStr [])
      in fst (create_linked g ''TripPlan'' tp_id ''HAS_REFERENCE'' ''ReferenceInfo''
                [(''description'', description), (''content'', content)]))"

text \<open>
  The loop over \<open>day_plans\<close>: an entry that is a dict and not empty becomes a day plan,
  any other entry is passed over.
\<close>

fun day_plans_loop :: "nat \<Rightarrow> pyval list \<Rightarrow> graph \<Rightarrow> error + graph" where
  "day_plans_loop tp_id [] g = Inr g"
| "day_plans_loop tp_id (day_plan # rest) g =
     (case day_plan of
        PDict d \<Rightarrow>
          if d \<noteq> [] then and_then (create_day_plan g tp_id d) (day_plans_loop tp_id rest)
          else day_plans_loop tp_id rest g
      | _ \<Rightarrow> day_plans_loop tp_id rest g)"

text \<open>
  The loop over \<open>ref_infos\<close>: a dict with the keys \<open>Description\<close> and \<open>Content\<close> becomes
  a reference node.
\<close>

fun ref_infos_loop :: "nat \<Rightarrow> pyval list \<Rightarrow> graph \<Rightarrow> graph" where
  "ref_infos_loop tp_id [] g = g"
| "ref_infos_loop tp_id (ref # rest) g =
     (case ref of
        PDict d \<Rightarrow>
          if py_in ''Description'' d \<and> py_in ''Content'' d
          then ref_infos_loop tp_id rest (create_reference_info g tp_id d)
          else ref_infos_loop tp_id rest g
      | _ \<Rightarrow> ref_infos_loop tp_id rest g)"

text \<open>
  \<^verbatim>\<open>MATCH (tp:TripPlan) WHERE id(tp) = $tp_id  MATCH (c1:City {name: $org})
  MATCH (c2:City {name: $dest})  MERGE (tp)-[:ORIGIN]->(c1)  MERGE (tp)-[:DESTINATION]->(c2)\<close>:
  both relationships for every row of the three matches, nothing when one of them is empty.
\<close>

definition link_cities :: "graph \<Rightarrow> nat \<Rightarrow> pyval \<Rightarrow> pyval \<Rightarrow> graph" where
  "link_cities g tp_id org dest =
     merge_rels g
       (concat (map (\<lambda>(tp, c1, c2). [(tp, ''ORIGIN'', c1), (tp, ''DESTINATION'', c2)])
          (List.product (match_id g ''TripPlan'' tp_id)
             (List.product (match_city g org) (match_city g dest)))))"

text \<open>
  \<^verbatim>\<open>_create_trip_plan(tx, org, dest, ..., annotated_plan, reference_information)\<close>.
  \<^verbatim>\<open>CREATE (tp:TripPlan {...}) RETURN id(tp)\<close> returns one row, the new identifier.
\<close>

definition create_trip_plan ::
  "decoder \<Rightarrow> pyval \<Rightarrow> pyval \<Rightarrow> pyval \<Rightarrow> pyval \<Rightarrow> pyval \<Rightarrow> pyval \<Rightarrow> pyval \<Rightarrow> pyval \<Rightarrow> pyval \<Rightarrow>
   pyval \<Rightarrow> pyval \<Rightarrow> pyval \<Rightarrow> graph \<Rightarrow> error + graph" where
  "create_trip_plan ev org dest days visiting_city_number date people_number local_constraint
     budget query_text level annotated_plan reference_information g =
     (let tp_id = length (nodes g);
          g1 = create_node g ''TripPlan''
                 [(''org'', org), (''dest'', dest), (''days'', days),
                  (''visiting_city_number'', visiting_city_number), (''date'', date),
                  (''people_number'', people_number), (''local_constraint'', local_constraint),
                  (''budget'', budget), (''query'', query_text), (''level'', level),
                  (''annotated_plan'', annotated_plan),
                  (''reference_information'', reference_information)];
          g2 = link_cities g1 tp_id org dest;
          day_plans = literal_eval_or_empty ev annotated_plan
      in and_then (case day_plans of PList ds \<Rightarrow> day_plans_loop tp_id ds g2 | _ \<Rightarrow> Inr g2)
           (\<lambda>g3. let ref_infos = literal_eval_or_empty ev reference_information
                 in Inr (case ref_infos of PList rs \<Rightarrow> ref_infos_loop tp_id rs g3 | _ \<Rightarrow> g3)))"

text \<open>A dataset row: a dict with string keys.\<close>

type_synonym row = "string \<rightharpoonup> pyval"

definition rec_get :: "row \<Rightarrow> string \<Rightarrow> pyval \<Rightarrow> pyval" where
  "rec_get record k dflt = (case record k of None \<Rightarrow> dflt | Some v \<Rightarrow> v)"

text \<open>
  \<^verbatim>\<open>process_record(self, session, record)\<close>: three transactions in a row.  An
  exception leaves the function at once, with the graph as the transactions committed
  before have made it.
\<close>

definition process_record :: "decoder \<Rightarrow> graph \<Rightarrow> row \<Rightarrow> graph \<times> error option" where
  "process_record ev g record =
     (let org = rec_get record ''org'' (PStr ''Unknown'');
          dest = rec_get record ''dest'' (PStr ''Unknown'');
          days = rec_get record ''days'' (PInt 0);
          visiting_city_number = rec_get record ''visiting_city_number'' (PInt 0);
          date = rec_get record ''date'' (PStr ''[]'');
          people_number = rec_get record ''people_number'' (PInt 0);
          local_constraint = rec_get record ''local_constraint'' (PStr ''{}'');
          budget = rec_get record ''budget'' (PInt 0);
          query_text = rec_get record ''query'' (PStr []);
          level = rec_get record ''level'' (PStr ''unknown'');
          annotated_plan = rec_get record ''annotated_plan'' (PStr ''[]'');
          reference_information = rec_get record ''reference_information'' (PStr ''[]'')
      in case write_transaction (merge_city org) g of
           (g1, Some e) \<Rightarrow> (g1, Some e)
         | (g1, None) \<Rightarrow>
             (case write_transaction (merge_city dest) g1 of
                (g2, Some e) \<Rightarrow> (g2, Some e)
              | (g2, None) \<Rightarrow>
                  write_transaction
                    (create_trip_plan ev org dest days visiting_city_number date people_number
                       local_constraint budget query_text level annotated_plan
                       reference_information) g2))"

text \<open>
  The loop of \<^verbatim>\<open>build_graph_from_travel_dataset\<close> over the rows of the split: nothing
  catches an exception of \<open>process_record\<close>, so the first one ends the build.
\<close>

fun build_graph_from_travel_dataset :: "decoder \<Rightarrow> graph \<Rightarrow> row list \<Rightarrow> graph \<times> error option" where
  "build_graph_from_travel_dataset ev g [] = (g, None)"
| "build_graph_from_travel_dataset ev g (record # rest) =
     (case process_record ev g record of
        (g', Some e) \<Rightarrow> (g', Some e)
      | (g', None) \<Rightarrow> build_graph_from_travel_dataset ev g' rest)"

section \<open>The queries\<close>









section \<open>Notions of the specification\<close>

text \<open>The relationships of the data model: label of the start node, type, label of the end node.\<close>

definition schema :: "(string \<times> string \<times> string) list" where
  "schema =
     [(''TripPlan'', ''ORIGIN'', ''City''), (''TripPlan'', ''DESTINATION'', ''City''),
      (''TripPlan'', ''HAS_DAY_PLAN'', ''DayPlan''), (''DayPlan'', ''IN_CITY'', ''City''),
      (''DayPlan'', ''HAS_TRANSPORTATION'', ''Transportation''), (''DayPlan'', ''HAS_MEAL'', ''Meal''),
      (''DayPlan'', ''HAS_ATTRACTION'', ''Attraction''),
      (''DayPlan'', ''HAS_ACCOMMODATION'', ''Accommodation''),
      (''TripPlan'', ''HAS_REFERENCE'', ''ReferenceInfo'')]"

text \<open>A relationship is typed in a graph when both ends exist and their labels fit the schema.\<close>

definition rel_typed :: "graph \<Rightarrow> nat \<times> string \<times> nat \<Rightarrow> bool" where
  "rel_typed g r =
     (case r of (a, t, b) \<Rightarrow>
        a < length (nodes g) \<and> b < length (nodes g)
        \<and> (label (nodes g ! a), t, label (nodes g ! b)) \<in> set schema)"

text \<open>
  \<open>grows g g'\<close>: the graph \<open>g'\<close> keeps every node of \<open>g\<close> under its identifier and every
  relationship of \<open>g\<close>, and each relationship it adds is typed.
\<close>

definition grows :: "graph \<Rightarrow> graph \<Rightarrow> bool" where
  "grows g g' =
     (prefix (nodes g) (nodes g') \<and> set (rels g) \<subseteq> set (rels g')
      \<and> list_all (\<lambda>r. r \<in> set (rels g) \<or> rel_typed g' r) (rels g'))"

text \<open>The number of City nodes with a given name.\<close>

definition city_count :: "graph \<Rightarrow> pyval \<Rightarrow> nat" where
  "city_count g v = length (filter (is_city v) (nodes g))"

text \<open>
  \<open>city_step v g g'\<close>: no City node named \<open>v\<close> is lost, and one is added at most, and only
  when there was none.
\<close>

definition city_step :: "pyval \<Rightarrow> graph \<Rightarrow> graph \<Rightarrow> bool" where
  "city_step v g g' = (city_count g v \<le> city_count g' v \<and> city_count g' v \<le> max 1 (city_count g v))"

text \<open>
  The six activity fields of a day-plan entry in the order in which the code reads them:
  key, label of the node, meal slot.
\<close>

definition activity_fields :: "(string \<times> string \<times> string option) list" where
  "activity_fields =
     [(''transportation'', ''Transportation'', None),
      (''breakfast'', ''Meal'', Some ''Breakfast''),
      (''lunch'', ''Meal'', Some ''Lunch''),
      (''dinner'', ''Meal'', Some ''Dinner''),
      (''attraction'', ''Attraction'', None),
      (''accommodation'', ''Accommodation'', None)]"

definition is_activity :: "node \<Rightarrow> bool" where
  "is_activity n = (label n \<in> set [''Transportation'', ''Meal'', ''Attraction'', ''Accommodation''])"

text \<open>The node of an activity: its value and, for a meal, the slot.\<close>

definition activity_node :: "string \<Rightarrow> string option \<Rightarrow> pyval \<Rightarrow> node" where
  "activity_node l m x =
     \<lparr>label = l,
      props = (case m of None \<Rightarrow> [(''value'', x)] | Some slot \<Rightarrow> [(''value'', x), (''meal_type'', PStr slot)])\<rparr>"

text \<open>
  A field is present when it is a text that is not empty and that is not a single dash once
  the white space around it is removed.  (A \<^verbatim>\<open>bytes\<close> value is present when it is not
  empty.)
\<close>

definition present :: "pyval \<Rightarrow> bool" where
  "present x =
     (case x of PStr s \<Rightarrow> s \<noteq> [] \<and> py_strip s \<noteq> ''-'' | PBytes b \<Rightarrow> b \<noteq> [] | _ \<Rightarrow> False)"



text \<open>The activity nodes that a day-plan entry asks for, in the order of the fields.\<close>

definition expected_activities :: "(pyval \<times> pyval) list \<Rightarrow> node list" where
  "expected_activities d =
     concat (map (\<lambda>(k, l, m). let x = py_get d k (PStr []) in
                              if present x then [activity_node l m x] else [])
              activity_fields)"



text \<open>The fields of a row as \<open>process_record\<close> reads them: key, property of the trip, default.\<close>

definition trip_fields :: "(string \<times> string \<times> pyval) list" where
  "trip_fields =
     [(''org'', ''org'', PStr ''Unknown''), (''dest'', ''dest'', PStr ''Unknown''),
      (''days'', ''days'', PInt 0), (''visiting_city_number'', ''visiting_city_number'', PInt 0),
      (''date'', ''date'', PStr ''[]''), (''people_number'', ''people_number'', PInt 0),
      (''local_constraint'', ''local_constraint'', PStr ''{}''), (''budget'', ''budget'', PInt 0),
      (''query'', ''query'', PStr []), (''level'', ''level'', PStr ''unknown''),
      (''annotated_plan'', ''annotated_plan'', PStr ''[]''),
      (''reference_information'', ''reference_information'', PStr ''[]'')]"

text \<open>The trip node of a row: every field of the row, or its default when the row has none.\<close>

definition trip_node :: "row \<Rightarrow> node" where
  "trip_node record =
     \<lparr>label = ''TripPlan'',
      props = map (\<lambda>(k, p, dflt). (p, case record k of None \<Rightarrow> dflt | Some v \<Rightarrow> v)) trip_fields\<rparr>"

text \<open>The graph after the two city transactions of a row.\<close>

definition cities_merged :: "graph \<Rightarrow> row \<Rightarrow> graph" where
  "cities_merged g record =
     cy_merge_city (cy_merge_city g (rec_get record ''org'' (PStr ''Unknown'')))
       (rec_get record ''dest'' (PStr ''Unknown''))"

text \<open>The body of the third transaction of a row.\<close>

definition trip_transaction :: "decoder \<Rightarrow> row \<Rightarrow> graph \<Rightarrow> error + graph" where
  "trip_transaction ev record =
     create_trip_plan ev
       (rec_get record ''org'' (PStr ''Unknown'')) (rec_get record ''dest'' (PStr ''Unknown''))
       (rec_get record ''days'' (PInt 0)) (rec_get record ''visiting_city_number'' (PInt 0))
       (rec_get record ''date'' (PStr ''[]'')) (rec_get record ''people_number'' (PInt 0))
       (rec_get record ''local_constraint'' (PStr ''{}'')) (rec_get record ''budget'' (PInt 0))
       (rec_get record ''query'' (PStr [])) (rec_get record ''level'' (PStr ''unknown''))
       (rec_get record ''annotated_plan'' (PStr ''[]''))
       (rec_get record ''reference_information'' (PStr ''[]''))"


text \<open>The node of a day-plan entry and the node of a reference entry.\<close>

definition day_node :: "(pyval \<times> pyval) list \<Rightarrow> node" where
  "day_node d =
     \<lparr>label = ''DayPlan'',
      props = [(''day'', py_get d ''days'' PNone), (''current_city'', py_get d ''current_city'' (PStr []))]\<rparr>"

definition ref_node :: "(pyval \<times> pyval) list \<Rightarrow> node" where
  "ref_node d =
     \<lparr>label = ''ReferenceInfo'',
      props = [(''description'', py_get d ''Description'' (PStr [])),
               (''content'', py_get d ''Content'' (PStr []))]\<rparr>"

text \<open>
  The graph after the first two statements of the third transaction: the trip node and its
  relationships to the cities.
\<close>

definition trip_linked :: "row \<Rightarrow> graph \<Rightarrow> graph" where
  "trip_linked record g =
     link_cities (create_node g ''TripPlan'' (props (trip_node record))) (length (nodes g))
       (rec_get record ''org'' (PStr ''Unknown'')) (rec_get record ''dest'' (PStr ''Unknown''))"





section \<open>Sample data\<close>

text \<open>
  The value of \<^verbatim>\<open>ast.literal_eval\<close> on the texts used in the examples below; every
  other text is taken as one that does not decode.
\<close>

definition sample_eval :: decoder where
  "sample_eval s =
     (if s = ''[]'' then Some (PList [])
      else if s = ''{}'' then Some (PDict [])
      else if s = ''5'' then Some (PInt 5)
      else if s = ''[{'transportation': 5}]''
        then Some (PList [PDict [(PStr ''transportation'', PInt 5)]])
      else if s = ''[{'transportation': '  '}]''
        then Some (PList [PDict [(PStr ''transportation'', PStr ''  '')]])
      else if s = ''[{'days': 1, 'current_city': 'New York', 'breakfast': 'Hotel buffet', 'attraction': '-'}, {'days': 2, 'current_city': 'Chicago', 'attraction': 'Millennium Park'}]''
        then Some (PList
               [PDict [(PStr ''days'', PInt 1), (PStr ''current_city'', PStr ''New York''),
                       (PStr ''breakfast'', PStr ''Hotel buffet''), (PStr ''attraction'', PStr ''-'')],
                PDict [(PStr ''days'', PInt 2), (PStr ''current_city'', PStr ''Chicago''),
                       (PStr ''attraction'', PStr ''Millennium Park'')]])
      else if s = ''[{'days': 1, 'lunch': 'Diner'}, {'days': 2, 'lunch': 'Diner'}]''
        then Some (PList
               [PDict [(PStr ''days'', PInt 1), (PStr ''lunch'', PStr ''Diner'')],
                PDict [(PStr ''days'', PInt 2), (PStr ''lunch'', PStr ''Diner'')]])
      else if s = ''[{'Description': 'Visa', 'Content': 'Not required'}]''
        then Some (PList
               [PDict [(PStr ''Description'', PStr ''Visa''), (PStr ''Content'', PStr ''Not required'')]])
      else None)"

text \<open>The row of the end-to-end scenario, and a second trip from the same origin.\<close>

definition sample_record :: row where
  "sample_record =
     [''org'' \<mapsto> PStr ''New York'', ''dest'' \<mapsto> PStr ''Chicago'', ''days'' \<mapsto> PInt 3,
      ''annotated_plan'' \<mapsto> PStr ''[{'days': 1, 'current_city': 'New York', 'breakfast': 'Hotel buffet', 'attraction': '-'}, {'days': 2, 'current_city': 'Chicago', 'attraction': 'Millennium Park'}]'',
      ''reference_information'' \<mapsto> PStr ''[{'Description': 'Visa', 'Content': 'Not required'}]'']"

definition sample_record2 :: row where
  "sample_record2 =
     [''org'' \<mapsto> PStr ''New York'', ''dest'' \<mapsto> PStr ''Boston'', ''days'' \<mapsto> PInt 2,
      ''annotated_plan'' \<mapsto> PStr ''[{'days': 1, 'lunch': 'Diner'}, {'days': 2, 'lunch': 'Diner'}]'']"

definition sample_graph :: graph where
  "sample_graph =
     fst (build_graph_from_travel_dataset sample_eval empty_graph [sample_record, sample_record2])"






section \<open>Properties of the queries\<close>













section \<open>Properties of the statements\<close>

lemma nodes_create_node [simp]:
  "nodes (create_node g l ps) = nodes g @ [\<lparr>label = l, props = ps\<rparr>]"
  by (simp add: create_node_def)

lemma rels_create_node [simp]: "rels (create_node g l ps) = rels g"
  by (simp add: create_node_def)

lemma nodes_merge_rel [simp]: "nodes (merge_rel g a t b) = nodes g"
  by (simp add: merge_rel_def)

lemma set_rels_merge_rel [simp]:
  "set (rels (merge_rel g a t b)) = insert (a, t, b) (set (rels g))"
  by (auto simp: merge_rel_def)

lemma nodes_merge_rels [simp]: "nodes (merge_rels g rs) = nodes g"
  unfolding merge_rels_def by (induction rs arbitrary: g) auto

lemma set_rels_merge_rels [simp]: "set (rels (merge_rels g rs)) = set (rels g) \<union> set rs"
  unfolding merge_rels_def by (induction rs arbitrary: g) auto

lemma nodes_cy_merge_city:
  "nodes (cy_merge_city g v) =
     nodes g @ (if match_city g v = [] then [\<lparr>label = ''City'', props = [(''name'', v)]\<rparr>] else [])"
  by (simp add: cy_merge_city_def)

lemma rels_cy_merge_city [simp]: "rels (cy_merge_city g v) = rels g"
  by (simp add: cy_merge_city_def)

lemma in_match_city:
  "c \<in> set (match_city g v) \<longleftrightarrow> c < length (nodes g) \<and> is_city v (nodes g ! c)"
  by (auto simp: match_city_def)

lemma in_match_id:
  "s \<in> set (match_id g l i) \<longleftrightarrow> s = i \<and> i < length (nodes g) \<and> label (nodes g ! i) = l"
  by (auto simp: match_id_def)

lemma match_id_cases:
  "match_id g l i = [] \<or> match_id g l i = [i]"
  by (simp add: match_id_def)

lemma nodes_create_linked:
  "nodes (fst (create_linked g sl i t l ps)) =
     nodes g @ (if match_id g sl i = [] then [] else [\<lparr>label = l, props = ps\<rparr>])"
  by (simp add: create_linked_def Let_def split: list.splits)

lemma set_rels_create_linked:
  "set (rels (fst (create_linked g sl i t l ps))) =
     set (rels g) \<union> (if match_id g sl i = [] then {} else {(i, t, length (nodes g))})"
  using match_id_cases [of g sl i]
  by (auto simp: create_linked_def Let_def split: list.splits)


section \<open>Growth\<close>

lemma grows_iff:
  "grows g g' \<longleftrightarrow>
     prefix (nodes g) (nodes g') \<and> set (rels g) \<subseteq> set (rels g')
     \<and> (\<forall>r \<in> set (rels g'). r \<in> set (rels g) \<or> rel_typed g' r)"
  by (simp add: grows_def list_all_iff)

lemma rel_typed_prefix:
  assumes "prefix (nodes g) (nodes g')" and "rel_typed g r"
  shows "rel_typed g' r"
proof -
  from assms(1) obtain ns where ns: "nodes g' = nodes g @ ns"
    by (auto simp: prefix_def)
  obtain a t b where r: "r = (a, t, b)" by (cases r)
  with assms(2) ns show ?thesis
    by (auto simp: rel_typed_def nth_append)
qed

lemma grows_refl [simp]: "grows g g"
  by (simp add: grows_iff)

lemma grows_trans:
  assumes "grows g g'" and "grows g' g''"
  shows "grows g g''"
  using assms rel_typed_prefix [of g' g'']
  unfolding grows_iff by (blast intro: prefix_order.trans)

lemma grows_create_node [simp]: "grows g (create_node g l ps)"
  by (simp add: grows_iff)

lemma grows_cy_merge_city [simp]: "grows g (cy_merge_city g v)"
  by (simp add: grows_iff nodes_cy_merge_city)

lemma grows_merge_rels:
  "\<forall>r \<in> set rs. rel_typed g r \<Longrightarrow> grows g (merge_rels g rs)"
  by (auto simp: grows_iff rel_typed_def)

lemma grows_create_linked:
  assumes "(sl, t, l) \<in> set schema"
  shows "grows g (fst (create_linked g sl i t l ps))"
  using assms
  by (auto simp: grows_iff nodes_create_linked set_rels_create_linked rel_typed_def
      match_id_def nth_append split: if_splits)


section \<open>Growth of the builder's steps\<close>

lemma and_then_Inr [simp]:
  "and_then m f = Inr y \<longleftrightarrow> (\<exists>x. m = Inr x \<and> f x = Inr y)"
  by (cases m) (simp_all add: and_then_def)

lemma py_upper_labels:
  "py_upper ''Transportation'' = ''TRANSPORTATION''"
  "py_upper ''Meal'' = ''MEAL''"
  "py_upper ''Attraction'' = ''ATTRACTION''"
  "py_upper ''Accommodation'' = ''ACCOMMODATION''"
  by code_simp+

lemma create_related_node_linked:
  "\<exists>ps. create_related_node g dp_id x l m =
          fst (create_linked g ''DayPlan'' dp_id (''HAS_'' @ py_upper l) l ps)"
  by (auto simp: create_related_node_def split: option.splits)

lemma grows_create_related_node:
  assumes "(''DayPlan'', ''HAS_'' @ py_upper l, l) \<in> set schema"
  shows "grows g (create_related_node g dp_id x l m)"
  using create_related_node_linked [of g dp_id x l m] grows_create_linked [OF assms]
  by auto

lemma grows_related_field:
  assumes "(''DayPlan'', ''HAS_'' @ py_upper l, l) \<in> set schema"
    and "related_field dp_id x l m g = Inr g'"
  shows "grows g g'"
  using assms(2) grows_create_related_node [OF assms(1)]
  by (auto simp: related_field_def split: sum.splits if_splits)

lemma grows_activity_field:
  assumes "related_field dp_id x l m g = Inr g'"
    and "l \<in> set [''Transportation'', ''Meal'', ''Attraction'', ''Accommodation'']"
  shows "grows g g'"
  using assms(2) by (auto intro!: grows_related_field [OF _ assms(1)] simp: schema_def py_upper_labels)

lemma grows_in_city:
  assumes "in_city dp_id x g = Inr g'"
  shows "grows g g'"
proof (cases "valid_data x = Inr True")
  case False
  with assms show ?thesis
    by (auto simp: in_city_def split: sum.splits if_splits)
next
  case True
  define g1 where "g1 = cy_merge_city g x"
  define rs where "rs = map (\<lambda>(dp, c). (dp, ''IN_CITY'', c))
      (List.product (match_id g1 ''DayPlan'' dp_id) (match_city g1 x))"
  from True assms have g': "g' = merge_rels g1 rs"
    by (simp add: in_city_def g1_def rs_def Let_def)
  have "\<forall>r \<in> set rs. rel_typed g1 r"
    by (auto simp: rs_def rel_typed_def in_match_id in_match_city is_city_def schema_def)
  then have "grows g1 g'"
    unfolding g' by (rule grows_merge_rels)
  moreover have "grows g g1"
    by (simp add: g1_def)
  ultimately show ?thesis
    by (blast intro: grows_trans)
qed

lemma grows_create_day_plan:
  assumes "create_day_plan g tp_id d = Inr g'"
  shows "grows g g'"
proof -
  define g1 where "g1 = fst (create_linked g ''TripPlan'' tp_id ''HAS_DAY_PLAN'' ''DayPlan''
      [(''day'', py_get d ''days'' PNone), (''current_city'', py_get d ''current_city'' (PStr []))])"
  have 1: "grows g g1"
    unfolding g1_def by (rule grows_create_linked) (simp add: schema_def)
  from assms obtain dp_id g2 g3 g4 g5 g6 g7 where
      "in_city dp_id (py_get d ''current_city'' (PStr [])) g1 = Inr g2"
      "related_field dp_id (py_get d ''transportation'' (PStr [])) ''Transportation'' None g2 = Inr g3"
      "related_field dp_id (py_get d ''breakfast'' (PStr [])) ''Meal'' (Some ''Breakfast'') g3 = Inr g4"
      "related_field dp_id (py_get d ''lunch'' (PStr [])) ''Meal'' (Some ''Lunch'') g4 = Inr g5"
      "related_field dp_id (py_get d ''dinner'' (PStr [])) ''Meal'' (Some ''Dinner'') g5 = Inr g6"
      "related_field dp_id (py_get d ''attraction'' (PStr [])) ''Attraction'' None g6 = Inr g7"
      "related_field dp_id (py_get d ''accommodation'' (PStr [])) ''Accommodation'' None g7 = Inr g'"
    by (auto simp: create_day_plan_def Let_def g1_def case_prod_beta split: list.splits)
  then have "grows g1 g2" "grows g2 g3" "grows g3 g4" "grows g4 g5" "grows g5 g6" "grows g6 g7"
      "grows g7 g'"
    by (simp_all add: grows_in_city grows_activity_field)
  with 1 show ?thesis
    by (blast intro: grows_trans)
qed

lemma grows_day_plans_loop:
  "day_plans_loop tp_id ds g = Inr g' \<Longrightarrow> grows g g'"
proof (induction ds arbitrary: g)
  case Nil
  then show ?case by simp
next
  case (Cons x ds)
  then show ?case
    by (cases x) (auto split: if_splits dest: grows_create_day_plan intro: grows_trans)
qed

lemma grows_create_reference_info [simp]: "grows g (create_reference_info g tp_id d)"
  unfolding create_reference_info_def Let_def
  by (rule grows_create_linked) (simp add: schema_def)

lemma grows_ref_infos_loop [simp]: "grows g (ref_infos_loop tp_id rs g)"
proof (induction rs arbitrary: g)
  case Nil
  then show ?case by simp
next
  case (Cons x rs)
  have "grows g (ref_infos_loop tp_id rs (create_reference_info g tp_id d))" for d
    by (rule grows_trans [OF grows_create_reference_info Cons.IH])
  with Cons.IH show ?case
    by (cases x) auto
qed

lemma grows_link_cities [simp]: "grows g (link_cities g tp_id org dest)"
  unfolding link_cities_def
  by (rule grows_merge_rels)
    (auto simp: rel_typed_def in_match_id in_match_city is_city_def schema_def)

lemma grows_create_trip_plan:
  assumes "create_trip_plan ev org dest days vcn date pn lc budget q level ap ri g = Inr g'"
  shows "grows g g'"
proof -
  let ?g1 = "create_node g ''TripPlan''
     [(''org'', org), (''dest'', dest), (''days'', days), (''visiting_city_number'', vcn),
      (''date'', date), (''people_number'', pn), (''local_constraint'', lc), (''budget'', budget),
      (''query'', q), (''level'', level), (''annotated_plan'', ap),
      (''reference_information'', ri)]"
  let ?g2 = "link_cities ?g1 (length (nodes g)) org dest"
  have 12: "grows g ?g2"
    by (rule grows_trans [OF grows_create_node grows_link_cities])
  from assms obtain g3 where
    3: "(case literal_eval_or_empty ev ap of PList ds \<Rightarrow> day_plans_loop (length (nodes g)) ds ?g2
         | _ \<Rightarrow> Inr ?g2) = Inr g3"
    and 4: "g' = (case literal_eval_or_empty ev ri of PList rs \<Rightarrow> ref_infos_loop (length (nodes g)) rs g3
         | _ \<Rightarrow> g3)"
    by (auto simp: create_trip_plan_def Let_def)
  from 3 have "grows ?g2 g3"
    by (auto split: pyval.splits dest: grows_day_plans_loop)
  moreover from 4 have "grows g3 g'"
    by (auto split: pyval.splits)
  ultimately show ?thesis
    using 12 by (blast intro: grows_trans)
qed

lemma fst_write_transaction:
  "fst (write_transaction f g) = (case f g of Inl e \<Rightarrow> g | Inr g' \<Rightarrow> g')"
  by (simp add: write_transaction_def split: sum.splits)


lemma grows_write_transaction:
  assumes "\<And>g'. f g = Inr g' \<Longrightarrow> grows g g'"
  shows "grows g (fst (write_transaction f g))"
  using assms by (auto simp: write_transaction_def split: sum.splits)

lemma process_record_eq:
  "process_record ev g record = write_transaction (trip_transaction ev record) (cities_merged g record)"
  by (simp add: process_record_def Let_def write_transaction_def merge_city_def
      trip_transaction_def cities_merged_def)

lemma grows_cities_merged [simp]: "grows g (cities_merged g record)"
  unfolding cities_merged_def
  by (rule grows_trans [OF grows_cy_merge_city grows_cy_merge_city])

lemma grows_trip_transaction:
  "trip_transaction ev record g = Inr g' \<Longrightarrow> grows g g'"
  unfolding trip_transaction_def by (rule grows_create_trip_plan)

lemma grows_process_record: "grows g (fst (process_record ev g record))"
  unfolding process_record_eq
  by (rule grows_trans [OF grows_cities_merged grows_write_transaction])
    (rule grows_trip_transaction)

lemma grows_build_graph: "grows g (fst (build_graph_from_travel_dataset ev g records))"
proof (induction records arbitrary: g)
  case Nil
  then show ?case by simp
next
  case (Cons r records)
  obtain g1 e where p: "process_record ev g r = (g1, e)"
    by (cases "process_record ev g r")
  have "grows g g1"
    using grows_process_record [of g ev r] p by simp
  with Cons [of g1] p show ?case
    by (cases e) (auto intro: grows_trans)
qed


section \<open>City nodes\<close>

lemma match_city_empty_iff: "match_city g v = [] \<longleftrightarrow> city_count g v = 0"
proof -
  have "(\<forall>i < length (nodes g). \<not> is_city v (nodes g ! i)) \<longleftrightarrow> (\<forall>n \<in> set (nodes g). \<not> is_city v n)"
    by (metis in_set_conv_nth)
  then show ?thesis
    by (auto simp: match_city_def city_count_def filter_empty_conv)
qed

lemma city_step_refl [simp]: "city_step v g g"
  by (simp add: city_step_def)

lemma city_step_trans: "city_step v g g' \<Longrightarrow> city_step v g' g'' \<Longrightarrow> city_step v g g''"
  by (auto simp: city_step_def)

lemma city_step_same_nodes: "nodes g' = nodes g \<Longrightarrow> city_step v g g'"
  by (simp add: city_step_def city_count_def)

lemma city_step_create_node:
  "l \<noteq> ''City'' \<Longrightarrow> city_step v g (create_node g l ps)"
  by (simp add: city_step_def city_count_def is_city_def)

lemma city_step_cy_merge_city [simp]: "city_step v g (cy_merge_city g w)"
  using match_city_empty_iff [of g w]
  by (auto simp: city_step_def city_count_def nodes_cy_merge_city is_city_def)

lemma city_step_create_linked:
  "l \<noteq> ''City'' \<Longrightarrow> city_step v g (fst (create_linked g sl i t l ps))"
  by (simp add: city_step_def city_count_def nodes_create_linked is_city_def)

lemma city_step_related_field:
  assumes "related_field dp_id x l m g = Inr g'" and "l \<noteq> ''City''"
  shows "city_step v g g'"
  using assms create_related_node_linked [of g dp_id x l m] city_step_create_linked [of l v g]
  by (auto simp: related_field_def split: sum.splits if_splits)

lemma city_step_in_city:
  assumes "in_city dp_id x g = Inr g'"
  shows "city_step v g g'"
proof -
  have "city_step v (cy_merge_city g x) (merge_rels (cy_merge_city g x) rs)" for rs
    by (rule city_step_same_nodes) simp
  then have "city_step v g (merge_rels (cy_merge_city g x) rs)" for rs
    by (rule city_step_trans [OF city_step_cy_merge_city])
  with assms show ?thesis
    by (auto simp: in_city_def Let_def split: sum.splits if_splits)
qed

lemma city_step_create_day_plan:
  assumes "create_day_plan g tp_id d = Inr g'"
  shows "city_step v g g'"
proof -
  define g1 where "g1 = fst (create_linked g ''TripPlan'' tp_id ''HAS_DAY_PLAN'' ''DayPlan''
      [(''day'', py_get d ''days'' PNone), (''current_city'', py_get d ''current_city'' (PStr []))])"
  have 1: "city_step v g g1"
    unfolding g1_def by (rule city_step_create_linked) simp
  from assms obtain dp_id g2 g3 g4 g5 g6 g7 where
      "in_city dp_id (py_get d ''current_city'' (PStr [])) g1 = Inr g2"
      "related_field dp_id (py_get d ''transportation'' (PStr [])) ''Transportation'' None g2 = Inr g3"
      "related_field dp_id (py_get d ''breakfast'' (PStr [])) ''Meal'' (Some ''Breakfast'') g3 = Inr g4"
      "related_field dp_id (py_get d ''lunch'' (PStr [])) ''Meal'' (Some ''Lunch'') g4 = Inr g5"
      "related_field dp_id (py_get d ''dinner'' (PStr [])) ''Meal'' (Some ''Dinner'') g5 = Inr g6"
      "related_field dp_id (py_get d ''attraction'' (PStr [])) ''Attraction'' None g6 = Inr g7"
      "related_field dp_id (py_get d ''accommodation'' (PStr [])) ''Accommodation'' None g7 = Inr g'"
    by (auto simp: create_day_plan_def Let_def g1_def case_prod_beta split: list.splits)
  then have "city_step v g1 g2" "city_step v g2 g3" "city_step v g3 g4" "city_step v g4 g5"
      "city_step v g5 g6" "city_step v g6 g7" "city_step v g7 g'"
    by (simp_all add: city_step_in_city city_step_related_field)
  with 1 show ?thesis
    by (blast intro: city_step_trans)
qed

lemma city_step_day_plans_loop:
  "day_plans_loop tp_id ds g = Inr g' \<Longrightarrow> city_step v g g'"
proof (induction ds arbitrary: g)
  case Nil
  then show ?case by simp
next
  case (Cons x ds)
  then show ?case
    by (cases x) (auto split: if_splits dest: city_step_create_day_plan intro: city_step_trans)
qed

lemma city_step_create_reference_info [simp]: "city_step v g (create_reference_info g tp_id d)"
  unfolding create_reference_info_def Let_def
  by (rule city_step_create_linked) simp

lemma city_step_ref_infos_loop [simp]: "city_step v g (ref_infos_loop tp_id rs g)"
proof (induction rs arbitrary: g)
  case Nil
  then show ?case by simp
next
  case (Cons x rs)
  have "city_step v g (ref_infos_loop tp_id rs (create_reference_info g tp_id d))" for d
    by (rule city_step_trans [OF city_step_create_reference_info Cons.IH])
  with Cons.IH show ?case
    by (cases x) auto
qed

lemma city_step_link_cities [simp]: "city_step v g (link_cities g tp_id org dest)"
  by (rule city_step_same_nodes) (simp add: link_cities_def)

lemma city_step_create_trip_plan:
  assumes "create_trip_plan ev org dest days vcn date pn lc budget q level ap ri g = Inr g'"
  shows "city_step v g g'"
proof -
  let ?g1 = "create_node g ''TripPlan''
     [(''org'', org), (''dest'', dest), (''days'', days), (''visiting_city_number'', vcn),
      (''date'', date), (''people_number'', pn), (''local_constraint'', lc), (''budget'', budget),
      (''query'', q), (''level'', level), (''annotated_plan'', ap),
      (''reference_information'', ri)]"
  let ?g2 = "link_cities ?g1 (length (nodes g)) org dest"
  have "city_step v g ?g1"
    by (rule city_step_create_node) simp
  then have 12: "city_step v g ?g2"
    by (rule city_step_trans) simp
  from assms obtain g3 where
    3: "(case literal_eval_or_empty ev ap of PList ds \<Rightarrow> day_plans_loop (length (nodes g)) ds ?g2
         | _ \<Rightarrow> Inr ?g2) = Inr g3"
    and 4: "g' = (case literal_eval_or_empty ev ri of PList rs \<Rightarrow> ref_infos_loop (length (nodes g)) rs g3
         | _ \<Rightarrow> g3)"
    by (auto simp: create_trip_plan_def Let_def)
  from 3 have "city_step v ?g2 g3"
    by (auto split: pyval.splits dest: city_step_day_plans_loop)
  moreover from 4 have "city_step v g3 g'"
    by (auto split: pyval.splits)
  ultimately show ?thesis
    using 12 by (blast intro: city_step_trans)
qed

lemma city_step_cities_merged [simp]: "city_step v g (cities_merged g record)"
  unfolding cities_merged_def
  by (rule city_step_trans [OF city_step_cy_merge_city city_step_cy_merge_city])

lemma city_step_write_transaction:
  assumes "\<And>g'. f g = Inr g' \<Longrightarrow> city_step v g g'"
  shows "city_step v g (fst (write_transaction f g))"
  using assms by (auto simp: write_transaction_def split: sum.splits)

lemma city_step_process_record: "city_step v g (fst (process_record ev g record))"
  unfolding process_record_eq
  by (rule city_step_trans [OF city_step_cities_merged city_step_write_transaction])
    (simp add: trip_transaction_def city_step_create_trip_plan)

lemma city_count_cy_merge_city: "1 \<le> city_count (cy_merge_city g v) v"
proof (cases "match_city g v = []")
  case True
  then show ?thesis
    by (simp add: city_count_def nodes_cy_merge_city is_city_def)
next
  case False
  then have "city_count g v \<noteq> 0"
    by (simp add: match_city_empty_iff)
  with False show ?thesis
    by (simp add: cy_merge_city_def)
qed

lemma city_count_cities_merged:
  "1 \<le> city_count (cities_merged g record) (rec_get record ''org'' (PStr ''Unknown''))"
  "1 \<le> city_count (cities_merged g record) (rec_get record ''dest'' (PStr ''Unknown''))"
proof -
  let ?o = "rec_get record ''org'' (PStr ''Unknown'')"
  let ?d = "rec_get record ''dest'' (PStr ''Unknown'')"
  have "city_step ?o (cy_merge_city g ?o) (cities_merged g record)"
    by (simp add: cities_merged_def)
  with city_count_cy_merge_city [of g "?o"] show "1 \<le> city_count (cities_merged g record) ?o"
    by (simp add: city_step_def)
  show "1 \<le> city_count (cities_merged g record) ?d"
    unfolding cities_merged_def by (rule city_count_cy_merge_city)
qed

lemma city_count_process_record:
  "1 \<le> city_count (fst (process_record ev g record)) (rec_get record ''org'' (PStr ''Unknown''))"
  "1 \<le> city_count (fst (process_record ev g record)) (rec_get record ''dest'' (PStr ''Unknown''))"
proof -
  have "city_step v (cities_merged g record) (fst (process_record ev g record))" for v
    unfolding process_record_eq
    by (rule city_step_write_transaction)
      (simp add: trip_transaction_def city_step_create_trip_plan)
  then show
    "1 \<le> city_count (fst (process_record ev g record)) (rec_get record ''org'' (PStr ''Unknown''))"
    "1 \<le> city_count (fst (process_record ev g record)) (rec_get record ''dest'' (PStr ''Unknown''))"
    using city_count_cities_merged [of g "record"]
    by (auto simp: city_step_def intro: order_trans)
qed



lemma city_step_build_graph: "city_step v g (fst (build_graph_from_travel_dataset ev g records))"
proof (induction records arbitrary: g)
  case Nil
  then show ?case by simp
next
  case (Cons r records)
  obtain g1 e where p: "process_record ev g r = (g1, e)"
    by (cases "process_record ev g r")
  have "city_step v g g1"
    using city_step_process_record [of v g ev r] p by simp
  with Cons [of g1] p show ?case
    by (cases e) (auto intro: city_step_trans)
qed

lemma city_count_build_graph:
  assumes "build_graph_from_travel_dataset ev g records = (g', None)" and "r \<in> set records"
  shows "1 \<le> city_count g' (rec_get r ''org'' (PStr ''Unknown''))
       \<and> 1 \<le> city_count g' (rec_get r ''dest'' (PStr ''Unknown''))"
  using assms
proof (induction records arbitrary: g)
  case Nil
  then show ?case by simp
next
  case (Cons x records)
  obtain g1 e where p: "process_record ev g x = (g1, e)"
    by (cases "process_record ev g x")
  with Cons.prems(1) have e: "e = None" and b: "build_graph_from_travel_dataset ev g1 records = (g', None)"
    by (auto split: option.splits)
  show ?case
  proof (cases "r = x")
    case True
    have "city_step v g1 g'" for v
      using city_step_build_graph [of v g1 ev records] b by simp
    moreover have "1 \<le> city_count g1 (rec_get r ''org'' (PStr ''Unknown''))"
        "1 \<le> city_count g1 (rec_get r ''dest'' (PStr ''Unknown''))"
      using city_count_process_record [of ev g x] p True by simp_all
    ultimately show ?thesis
      by (auto simp: city_step_def intro: order_trans)
  next
    case False
    with Cons.prems(2) have "r \<in> set records" by simp
    with Cons.IH b show ?thesis by blast
  qed
qed

lemma cy_merge_city_idem: "cy_merge_city (cy_merge_city g v) v = cy_merge_city g v"
  using city_count_cy_merge_city [of g v] match_city_empty_iff [of "cy_merge_city g v" v]
  by (auto simp: cy_merge_city_def [of "cy_merge_city g v"])

lemma cy_merge_city_funpow:
  "0 < N \<Longrightarrow> ((\<lambda>h. cy_merge_city h v) ^^ N) g = cy_merge_city g v"
proof (induction N)
  case 0
  then show ?case by simp
next
  case (Suc N)
  then show ?case
    by (cases "N = 0") (simp_all add: cy_merge_city_idem)
qed

lemma sample_build:
  "build_graph_from_travel_dataset sample_eval empty_graph [sample_record, sample_record2]
     = (sample_graph, None)"
proof -
  have "snd (build_graph_from_travel_dataset sample_eval empty_graph [sample_record, sample_record2]) = None"
    by code_simp
  then show ?thesis
    by (simp add: sample_graph_def prod_eq_iff)
qed

text \<open>
  C2.  Starting from a graph with at most one City node named \<open>s\<close> (the empty graph is
  one), a build over any rows leaves at most one City node named \<open>s\<close>, and exactly one
  when the build ends without an exception and some row has \<open>s\<close> as its origin or its
  destination, however many rows do.  Merging the name \<open>N \<ge> 1\<close> times in a row leaves exactly
  one such node, and a second merge changes nothing.  Names are compared as they are
  written, letter case included.
\<close>

theorem city_merge_idempotent:
  assumes "city_count g (PStr s) \<le> 1"
    and "build_graph_from_travel_dataset ev g records = (g', err)"
  shows "city_count g' (PStr s) \<le> 1
     \<and> (err = None \<and> (\<exists>r \<in> set records. rec_get r ''org'' (PStr ''Unknown'') = PStr s
                                       \<or> rec_get r ''dest'' (PStr ''Unknown'') = PStr s)
          \<longrightarrow> city_count g' (PStr s) = 1)
     \<and> (\<forall>N. 0 < N \<longrightarrow> city_count (((\<lambda>h. cy_merge_city h (PStr s)) ^^ N) g) (PStr s) = 1)
     \<and> cy_merge_city (cy_merge_city g (PStr s)) (PStr s) = cy_merge_city g (PStr s)"
proof -
  have "city_step (PStr s) g g'"
    using city_step_build_graph [of "PStr s" g ev records] assms(2) by simp
  with assms(1) have le: "city_count g' (PStr s) \<le> 1"
    by (simp add: city_step_def)
  have "1 \<le> city_count g' (PStr s)"
    if "err = None" and "r \<in> set records"
      and "rec_get r ''org'' (PStr ''Unknown'') = PStr s \<or> rec_get r ''dest'' (PStr ''Unknown'') = PStr s"
    for r
    using city_count_build_graph [of ev g records g' r] assms(2) that by auto
  with le have ingest: "err = None \<and> (\<exists>r \<in> set records. rec_get r ''org'' (PStr ''Unknown'') = PStr s
        \<or> rec_get r ''dest'' (PStr ''Unknown'') = PStr s) \<longrightarrow> city_count g' (PStr s) = 1"
    by (metis le_antisym)
  have "city_count (cy_merge_city g (PStr s)) (PStr s) = 1"
    using city_count_cy_merge_city [of g "PStr s"] city_step_cy_merge_city [of "PStr s" g "PStr s"]
      assms(1)
    by (simp add: city_step_def)
  then have "\<forall>N. 0 < N \<longrightarrow> city_count (((\<lambda>h. cy_merge_city h (PStr s)) ^^ N) g) (PStr s) = 1"
    by (simp add: cy_merge_city_funpow)
  with le ingest show ?thesis
    by (simp add: cy_merge_city_idem)
qed

theorem city_merge_idempotent_witness:
  "city_count empty_graph (PStr ''New York'') \<le> 1
   \<and> build_graph_from_travel_dataset sample_eval empty_graph [sample_record, sample_record2]
       = (sample_graph, None)
   \<and> rec_get sample_record ''org'' (PStr ''Unknown'') = PStr ''New York''
   \<and> rec_get sample_record2 ''org'' (PStr ''Unknown'') = PStr ''New York''
   \<and> city_count sample_graph (PStr ''New York'') = 1
   \<and> city_count (((\<lambda>h. cy_merge_city h (PStr ''New York'')) ^^ 3) empty_graph) (PStr ''New York'') = 1"
proof -
  have a: "city_count empty_graph (PStr ''New York'') \<le> 1"
    by (simp add: city_count_def empty_graph_def)
  have o: "rec_get sample_record ''org'' (PStr ''Unknown'') = PStr ''New York''"
      "rec_get sample_record2 ''org'' (PStr ''Unknown'') = PStr ''New York''"
    by (simp_all add: rec_get_def sample_record_def sample_record2_def)
  from city_merge_idempotent [OF a sample_build] o
  have "city_count sample_graph (PStr ''New York'') = 1"
    and "city_count (((\<lambda>h. cy_merge_city h (PStr ''New York'')) ^^ 3) empty_graph) (PStr ''New York'') = 1"
    by auto
  with a o sample_build show ?thesis
    by simp
qed

text \<open>
  C7.  Every relationship that a build adds to the graph joins two nodes of the graph and
  fits the schema, so its type is one of nine fixed names.  A relationship that ends in an
  activity node starts at a day plan and has the type \<open>HAS_\<close> followed by the label of
  that node in capitals, one of the four names \<open>HAS_TRANSPORTATION\<close>, \<open>HAS_MEAL\<close>,
  \<open>HAS_ATTRACTION\<close> and \<open>HAS_ACCOMMODATION\<close>, whatever the rows hold: the label that
  \<open>_create_related_node\<close> puts into the statement is a constant of \<open>_create_day_plan\<close>.
\<close>

theorem relationship_types_closed:
  assumes "build_graph_from_travel_dataset ev g records = (g', err)"
    and "(a, t, b) \<in> set (rels g')" and "(a, t, b) \<notin> set (rels g)"
  shows "a < length (nodes g') \<and> b < length (nodes g')
     \<and> (label (nodes g' ! a), t, label (nodes g' ! b)) \<in> set schema
     \<and> t \<in> set [''ORIGIN'', ''DESTINATION'', ''HAS_DAY_PLAN'', ''IN_CITY'', ''HAS_REFERENCE'',
                 ''HAS_TRANSPORTATION'', ''HAS_MEAL'', ''HAS_ATTRACTION'', ''HAS_ACCOMMODATION'']
     \<and> (is_activity (nodes g' ! b) \<longrightarrow>
          label (nodes g' ! a) = ''DayPlan'' \<and> t = ''HAS_'' @ py_upper (label (nodes g' ! b))
          \<and> t \<in> set [''HAS_TRANSPORTATION'', ''HAS_MEAL'', ''HAS_ATTRACTION'', ''HAS_ACCOMMODATION''])"
proof -
  have "grows g g'"
    using grows_build_graph [of g ev records] assms(1) by simp
  with assms(2,3) have "rel_typed g' (a, t, b)"
    by (auto simp: grows_iff)
  then have 1: "a < length (nodes g')" "b < length (nodes g')"
    and 2: "(label (nodes g' ! a), t, label (nodes g' ! b)) \<in> set schema"
    by (simp_all add: rel_typed_def)
  from 2 have "t \<in> set [''ORIGIN'', ''DESTINATION'', ''HAS_DAY_PLAN'', ''IN_CITY'', ''HAS_REFERENCE'',
                 ''HAS_TRANSPORTATION'', ''HAS_MEAL'', ''HAS_ATTRACTION'', ''HAS_ACCOMMODATION'']"
    by (auto simp: schema_def)
  moreover from 2 have "is_activity (nodes g' ! b) \<longrightarrow>
          label (nodes g' ! a) = ''DayPlan'' \<and> t = ''HAS_'' @ py_upper (label (nodes g' ! b))
          \<and> t \<in> set [''HAS_TRANSPORTATION'', ''HAS_MEAL'', ''HAS_ATTRACTION'', ''HAS_ACCOMMODATION'']"
    unfolding schema_def
    apply (simp only: set_simps insert_iff empty_iff prod.inject)
    apply (elim disjE conjE)
    apply (simp_all add: is_activity_def py_upper_labels)
    done
  ultimately show ?thesis
    using 1 2 by blast
qed


theorem relationship_types_closed_witness:
  "build_graph_from_travel_dataset sample_eval empty_graph [sample_record, sample_record2]
       = (sample_graph, None)
   \<and> (3, ''HAS_MEAL'', 4) \<in> set (rels sample_graph)
   \<and> (3, ''HAS_MEAL'', 4) \<notin> set (rels empty_graph)
   \<and> label (nodes sample_graph ! 3) = ''DayPlan'' \<and> label (nodes sample_graph ! 4) = ''Meal''
   \<and> is_activity (nodes sample_graph ! 4)
   \<and> ''HAS_MEAL'' = ''HAS_'' @ py_upper (label (nodes sample_graph ! 4))"
proof -
  have a: "(3, ''HAS_MEAL'', 4) \<in> set (rels sample_graph)"
    by code_simp
  have b: "(3, ''HAS_MEAL'', 4) \<notin> set (rels empty_graph)"
    by (simp add: empty_graph_def)
  have c: "is_activity (nodes sample_graph ! 4)" "label (nodes sample_graph ! 4) = ''Meal''"
    by code_simp+
  from relationship_types_closed [OF sample_build a b] c
  have "label (nodes sample_graph ! 3) = ''DayPlan''"
    and "''HAS_MEAL'' = ''HAS_'' @ py_upper (label (nodes sample_graph ! 4))"
    by auto
  with a b c sample_build show ?thesis
    by simp
qed

section \<open>The nodes that the builder creates\<close>







lemma expected_activities_eq:
  "expected_activities d =
     (let t = py_get d ''transportation'' (PStr []) in
        if present t then [activity_node ''Transportation'' None t] else [])
   @ (let b = py_get d ''breakfast'' (PStr []) in
        if present b then [activity_node ''Meal'' (Some ''Breakfast'') b] else [])
   @ (let l = py_get d ''lunch'' (PStr []) in
        if present l then [activity_node ''Meal'' (Some ''Lunch'') l] else [])
   @ (let n = py_get d ''dinner'' (PStr []) in
        if present n then [activity_node ''Meal'' (Some ''Dinner'') n] else [])
   @ (let a = py_get d ''attraction'' (PStr []) in
        if present a then [activity_node ''Attraction'' None a] else [])
   @ (let c = py_get d ''accommodation'' (PStr []) in
        if present c then [activity_node ''Accommodation'' None c] else [])"
  by (simp add: expected_activities_def activity_fields_def Let_def)



lemma label_expected_activities:
  "n \<in> set (expected_activities d) \<Longrightarrow> is_activity n"
  by (auto simp: expected_activities_eq Let_def is_activity_def activity_node_def split: if_splits)

lemma filter_expected_activities [simp]:
  "filter is_activity (expected_activities d) = expected_activities d"
  by (simp add: filter_id_conv label_expected_activities)






section \<open>The third transaction\<close>

lemma trip_node_eq:
  "\<lparr>label = ''TripPlan'', props = props (trip_node r)\<rparr> = trip_node r"
  by (simp add: trip_node_def)



lemma nodes_trip_linked [simp]: "nodes (trip_linked r g) = nodes g @ [trip_node r]"
  by (simp add: trip_linked_def link_cities_def trip_node_eq)












lemma rels_cities_merged [simp]: "rels (cities_merged g r) = rels g"
  by (simp add: cities_merged_def)













lemma filter_refs_expected_activities [simp]:
  "filter (\<lambda>n. label n = ''ReferenceInfo'') (expected_activities d) = []"
  by (auto simp: filter_empty_conv is_activity_def dest!: label_expected_activities)





section \<open>Transactions of a row\<close>












section \<open>Activity nodes\<close>

lemma not_activity [simp]:
  "\<not> is_activity (day_node d)" "\<not> is_activity (trip_node r)" "\<not> is_activity (ref_node d)"
  by (simp_all add: is_activity_def day_node_def trip_node_def ref_node_def)


















end
